theory Spec2Isabelle
  imports Main
begin

section \<open>Python values and exceptions\<close>

text \<open>
  The exceptions the modelled handlers raise, catch or let through. \<open>ConnectionError\<close>
  stands for a transport failure that is not a refusal: Python's
  \<open>ConnectionRefusedError\<close> is a subclass of \<open>ConnectionError\<close>, so a handler written
  \<open>except ConnectionRefusedError\<close> does not catch it.
\<close>

datatype py_error =
    AttributeError
  | ConnectionRefusedError
  | ConnectionError
  | TypeError
  | IndexError

text \<open>
  \<open>self.context(command)\<close> runs a console command in the kernel. The kernel is not part of
  the three files; the call is a parameter of every handler that makes it: it takes the
  command text and the kernel's state and returns the kernel's state afterwards together
  with the exception it raised, if any. A Python exception does not undo what was done
  before it was raised, so the state is returned in both cases.
\<close>

type_synonym 'k context_call = "string \<Rightarrow> 'k \<Rightarrow> 'k \<times> py_error option"

text \<open>
  What \<open>self.context.last_signal(path)\<close> can return: \<open>None\<close>, a tuple of the
  arguments last sent on the path, or any other object (a bare string here).
\<close>

datatype signal = SNone | SStr string | STuple "signal list"

section \<open>The controller window (lhystudioscontrollergui.py)\<close>

subsection \<open>Widgets\<close>

datatype icon =
    icons8_connected_50
  | icons8_disconnected_50
  | icons8_emergency_stop_button_50
  | icons8_laser_beam_hazard_50
  | icons8_pause_50
  | icons8_play_50

datatype colour = Colour nat nat nat | ColourName string

text \<open>A \<open>wx.Button\<close>: the four attributes the handlers set.\<close>

record button =
  BackgroundColour :: colour
  Label :: string
  Bitmap :: icon
  Enabled :: bool

text \<open>A \<open>wx.Gauge\<close>: \<open>SetRange\<close>/\<open>GetRange\<close> and \<open>SetValue\<close>.\<close>

record gauge =
  Range :: int
  Value :: int

text \<open>
  The thread states imported from the kernel module. Their numbers are declared there;
  the window only compares them, so they are distinct constructors, and any other number
  a notification may carry is \<open>STATE_OTHER\<close>.
\<close>

datatype thread_state =
    STATE_INITIALIZE
  | STATE_IDLE
  | STATE_ACTIVE
  | STATE_BUSY
  | STATE_PAUSE
  | STATE_END
  | STATE_WAIT
  | STATE_TERMINATE
  | STATE_OTHER int

text \<open>
  The attributes of \<open>LhystudiosControllerGui\<close> that the modelled handlers read or write.
  \<^item> \<open>control_handler\<close>: the commands sent, in order, by the function \<open>f\<close> bound last to
    \<open>EVT_BUTTON\<close> of \<open>button_controller_control\<close> (each \<open>f\<close> only calls \<open>self.context\<close>).
  \<^item> \<open>text_controller_status\<close>: \<open>None\<close> when the attribute is \<open>None\<close>, else the text shown.
  \<^item> \<open>text_buffer_length\<close>, \<open>gauge_buffer\<close>: \<open>None\<close> when the window has no such attribute
    (\<open>__init__\<close> creates neither), so that reading it raises \<open>AttributeError\<close>; the text
    control holds \<open>str(value)\<close>, kept here as the number.
  \<^item> \<open>dialogs\<close>: message and caption of every modal \<open>wx.MessageDialog\<close> shown so far.
\<close>

record LhystudiosControllerGui =
  button_device_connect :: button
  text_connection_status :: string
  button_controller_control :: button
  control_handler :: "string list"
  text_controller_status :: "string option"
  text_buffer_length :: "int option"
  gauge_buffer :: "gauge option"
  buffer_max :: int
  last_control_state :: "thread_state option"
  gui_update :: bool
  dialogs :: "(string \<times> string) list"

text \<open>
  The window after \<open>__init__\<close> (with \<open>__set_properties\<close>): the control button is bound
  to \<open>on_button_start_controller\<close>, which sends no command.
\<close>

definition LhystudiosControllerGui_init :: LhystudiosControllerGui where
  "LhystudiosControllerGui_init =
     \<lparr>button_device_connect =
        \<lparr>BackgroundColour = Colour 102 255 102, Label = ''Connection'',
         Bitmap = icons8_connected_50, Enabled = True\<rparr>,
      text_connection_status = [],
      button_controller_control =
        \<lparr>BackgroundColour = Colour 102 255 102, Label = ''Start Controller'',
         Bitmap = icons8_play_50, Enabled = True\<rparr>,
      control_handler = [],
      text_controller_status = Some [],
      text_buffer_length = None,
      gauge_buffer = None,
      buffer_max = 1,
      last_control_state = None,
      gui_update = True,
      dialogs = []\<rparr>"

subsection \<open>on_buffer_update\<close>

definition on_buffer_update ::
  "LhystudiosControllerGui \<Rightarrow> int \<Rightarrow> LhystudiosControllerGui \<times> py_error option" where
  "on_buffer_update self v =
     (if gui_update self then
        (let self1 = (if v > buffer_max self then self\<lparr>buffer_max := v\<rparr> else self) in
         case text_buffer_length self1 of
           None \<Rightarrow> (self1, Some AttributeError)
         | Some _ \<Rightarrow>
            (let self2 = self1\<lparr>text_buffer_length := Some v\<rparr> in
             case gauge_buffer self2 of
               None \<Rightarrow> (self2, Some AttributeError)
             | Some gb \<Rightarrow>
                (let gb1 = gb\<lparr>Range := buffer_max self2\<rparr>;
                     gb2 = gb1\<lparr>Value := min v (Range gb1)\<rparr>
                 in (self2\<lparr>gauge_buffer := Some gb2\<rparr>, None))))
      else (self, None))"

text \<open>
  A sequence of \<open>pipe;buffer\<close> notifications, delivered in order: the window each delivery
  leaves is the window the next one finds, whether or not the handler raised.
\<close>

fun on_buffer_updates :: "LhystudiosControllerGui \<Rightarrow> int list \<Rightarrow> LhystudiosControllerGui" where
  "on_buffer_updates self [] = self"
| "on_buffer_updates self (v # vs) = on_buffer_updates (fst (on_buffer_update self v)) vs"

subsection \<open>on_connection_state_change\<close>

text \<open>
  \<open>usb_status\<close> is what \<open>self.context.last_signal("pipe;usb_status")\<close> returns: \<open>None\<close>
  or the tuple of the arguments last sent, each given by its \<open>str\<close>. Indexing \<open>None\<close>
  raises \<open>TypeError\<close>, indexing the empty tuple \<open>IndexError\<close>, in both cases after the
  colour was set. \<open>_\<close> (\<open>wx.GetTranslation\<close>) is taken as the identity.
\<close>

definition on_connection_state_change ::
  "string list option \<Rightarrow> LhystudiosControllerGui \<Rightarrow> string
     \<Rightarrow> LhystudiosControllerGui \<times> py_error option" where
  "on_connection_state_change usb_status self state =
     (let b = button_device_connect self in
      if state = ''STATE_CONNECTION_FAILED'' \<or> state = ''STATE_DRIVER_NO_BACKEND'' then
        (let b1 = b\<lparr>BackgroundColour := ColourName ''#dfdf00''\<rparr> in
         case usb_status of
           None \<Rightarrow> (self\<lparr>button_device_connect := b1\<rparr>, Some TypeError)
         | Some [] \<Rightarrow> (self\<lparr>button_device_connect := b1\<rparr>, Some IndexError)
         | Some (s # _) \<Rightarrow>
             (self\<lparr>button_device_connect :=
                 b1\<lparr>Label := s, Bitmap := icons8_disconnected_50, Enabled := True\<rparr>\<rparr>, None))
      else if state = ''STATE_UNINITIALIZED'' \<or> state = ''STATE_USB_DISCONNECTED'' then
        (self\<lparr>button_device_connect :=
            b\<lparr>BackgroundColour := ColourName ''#ffff00'', Label := ''Connect'',
              Bitmap := icons8_connected_50, Enabled := True\<rparr>\<rparr>, None)
      else if state = ''STATE_USB_SET_DISCONNECTING'' then
        (self\<lparr>button_device_connect :=
            b\<lparr>BackgroundColour := ColourName ''#ffff00'', Label := ''Disconnecting...'',
              Bitmap := icons8_disconnected_50, Enabled := False\<rparr>\<rparr>, None)
      else if state = ''STATE_USB_CONNECTED'' \<or> state = ''STATE_CONNECTED'' then
        (self\<lparr>button_device_connect :=
            b\<lparr>BackgroundColour := ColourName ''#00ff00'', Label := ''Disconnect'',
              Bitmap := icons8_connected_50, Enabled := True\<rparr>\<rparr>, None)
      else if state = ''STATE_CONNECTING'' then
        (self\<lparr>button_device_connect :=
            b\<lparr>BackgroundColour := ColourName ''#ffff00'', Label := ''Connecting...'',
              Bitmap := icons8_connected_50, Enabled := False\<rparr>\<rparr>, None)
      else (self, None))"

subsection \<open>on_button_start_usb\<close>

text \<open>
  \<open>state\<close> is what \<open>self.context.last_signal("pipe;state")\<close> returns. \<open>signal_state\<close> is
  the first statement of the handler: a tuple is replaced by its first element
  (\<open>IndexError\<close> on the empty tuple) before the membership tests.
\<close>

definition connect_states :: "signal list" where
  "connect_states =
     [SStr ''STATE_USB_DISCONNECTED'', SStr ''STATE_UNINITIALIZED'',
      SStr ''STATE_CONNECTION_FAILED'', SStr ''STATE_DRIVER_MOCK'', SNone]"

definition disconnect_states :: "signal list" where
  "disconnect_states = [SStr ''STATE_CONNECTED'', SStr ''STATE_USB_CONNECTED'']"

definition connection_refused_dialog :: "string \<times> string" where
  "connection_refused_dialog =
     (''Connection Refused. See USB Log for detailed information.'', ''Manual Connection'')"

definition signal_state :: "signal \<Rightarrow> py_error + signal" where
  "signal_state state =
     (case state of
        STuple [] \<Rightarrow> Inl IndexError
      | STuple (x # _) \<Rightarrow> Inr x
      | _ \<Rightarrow> Inr state)"

definition on_button_start_usb ::
  "'k context_call \<Rightarrow> signal \<Rightarrow> LhystudiosControllerGui \<times> 'k
     \<Rightarrow> (LhystudiosControllerGui \<times> 'k) \<times> py_error option" where
  "on_button_start_usb context state0 sk =
     (let self = fst sk; k = snd sk in
      case signal_state state0 of
        Inl e \<Rightarrow> ((self, k), Some e)
      | Inr state \<Rightarrow>
          if state \<in> set connect_states then
            (case context ''usb_connect\<newline>'' k of
               (k', Some ConnectionRefusedError) \<Rightarrow>
                 ((self\<lparr>dialogs := dialogs self @ [connection_refused_dialog]\<rparr>, k'), None)
             | (k', e) \<Rightarrow> ((self, k'), e))
          else if state \<in> set disconnect_states then
            (case context ''usb_disconnect\<newline>'' k of (k', e) \<Rightarrow> ((self, k'), e))
          else ((self, k), None))"

subsection \<open>on_control_state\<close>

text \<open>
  \<open>get_text_thread_state\<close> is the kernel's; its result is shown through \<open>str\<close>, so the
  parameter gives the text. \<open>self.Bind(wx.EVT_BUTTON, f, button)\<close> makes \<open>f\<close> the handler
  that answers the next click; the Busy branch binds nothing.
\<close>

definition on_control_state ::
  "(thread_state \<Rightarrow> string) \<Rightarrow> LhystudiosControllerGui \<Rightarrow> thread_state
     \<Rightarrow> LhystudiosControllerGui" where
  "on_control_state get_text_thread_state self0 state =
     (if last_control_state self0 = Some state then self0
      else
        (let self1 = self0\<lparr>last_control_state := Some state\<rparr> in
         case text_controller_status self1 of
           None \<Rightarrow> self1
         | Some _ \<Rightarrow>
            (let self = self1\<lparr>text_controller_status := Some (get_text_thread_state state)\<rparr>;
                 button = button_controller_control self
             in
             if state = STATE_INITIALIZE \<or> state = STATE_END \<or> state = STATE_IDLE then
               self\<lparr>control_handler := [''start\<newline>'', ''hold\<newline>''],
                    button_controller_control :=
                      button\<lparr>BackgroundColour := ColourName ''#009900'',
                             Label := ''Hold Controller'',
                             Bitmap := icons8_play_50, Enabled := True\<rparr>\<rparr>
             else if state = STATE_BUSY then
               self\<lparr>button_controller_control :=
                      button\<lparr>BackgroundColour := ColourName ''#00dd00'',
                             Label := ''LOCKED'',
                             Bitmap := icons8_play_50, Enabled := False\<rparr>\<rparr>
             else if state = STATE_WAIT then
               self\<lparr>control_handler := [''control Wait Abort\<newline>''],
                    button_controller_control :=
                      button\<lparr>BackgroundColour := ColourName ''#dddd00'',
                             Label := ''Force Continue'',
                             Bitmap := icons8_laser_beam_hazard_50, Enabled := True\<rparr>\<rparr>
             else if state = STATE_PAUSE then
               self\<lparr>control_handler := [''resume\<newline>''],
                    button_controller_control :=
                      button\<lparr>BackgroundColour := ColourName ''#00dd00'',
                             Label := ''Resume Controller'',
                             Bitmap := icons8_play_50, Enabled := True\<rparr>\<rparr>
             else if state = STATE_ACTIVE then
               self\<lparr>control_handler := [''hold\<newline>''],
                    button_controller_control :=
                      button\<lparr>BackgroundColour := ColourName ''#00ff00'',
                             Label := ''Pause Controller'',
                             Bitmap := icons8_pause_50, Enabled := True\<rparr>\<rparr>
             else if state = STATE_TERMINATE then
               self\<lparr>control_handler := [''abort\<newline>''],
                    button_controller_control :=
                      button\<lparr>BackgroundColour := ColourName ''#00ffff'',
                             Label := ''Manual Reset'',
                             Bitmap := icons8_emergency_stop_button_50, Enabled := True\<rparr>\<rparr>
             else self)))"

subsection \<open>on_menu_pause, on_menu_stop\<close>

definition on_menu_pause ::
  "'k context_call \<Rightarrow> LhystudiosControllerGui \<times> 'k
     \<Rightarrow> (LhystudiosControllerGui \<times> 'k) \<times> py_error option" where
  "on_menu_pause context sk =
     (let self = fst sk; k = snd sk in
      case context ''pause\<newline>'' k of
        (k', Some AttributeError) \<Rightarrow> ((self, k'), None)
      | (k', e) \<Rightarrow> ((self, k'), e))"

definition on_menu_stop ::
  "'k context_call \<Rightarrow> LhystudiosControllerGui \<times> 'k
     \<Rightarrow> (LhystudiosControllerGui \<times> 'k) \<times> py_error option" where
  "on_menu_stop context sk =
     (let self = fst sk; k = snd sk in
      case context ''estop\<newline>'' k of
        (k', Some AttributeError) \<Rightarrow> ((self, k'), None)
      | (k', e) \<Rightarrow> ((self, k'), e))"

section \<open>The application (wxmeerk40t.py)\<close>

subsection \<open>ActionPanel and the Stop and Pause panels\<close>

text \<open>
  An \<open>ActionPanel\<close> keeps the callables it is given; an \<open>action\<close> acts on the kernel through
  the context. \<open>register_panel_stop\<close> and \<open>register_panel_pause\<close> build the panel around a
  local \<open>action\<close>; the pane layout and its registration are left out.
\<close>

record 'k ActionPanel =
  action :: "('k \<Rightarrow> 'k \<times> py_error option) option"
  action_right :: "('k \<Rightarrow> 'k \<times> py_error option) option"

definition on_button_go_click :: "'k ActionPanel \<Rightarrow> 'k \<Rightarrow> 'k \<times> py_error option" where
  "on_button_go_click self k = (case action self of None \<Rightarrow> (k, None) | Some a \<Rightarrow> a k)"

definition register_panel_stop :: "'k context_call \<Rightarrow> 'k ActionPanel" where
  "register_panel_stop context =
     \<lparr>action = Some (\<lambda>k. context ''estop\<newline>'' k), action_right = None\<rparr>"

definition register_panel_pause :: "'k context_call \<Rightarrow> 'k ActionPanel" where
  "register_panel_pause context =
     \<lparr>action = Some (\<lambda>k. context ''pause\<newline>'' k), action_right = None\<rparr>"

section \<open>PointNode (elem_point.py)\<close>

text \<open>
  The attributes of a \<open>PointNode\<close>; \<open>priv_bounds\<close> and \<open>priv_bounds_dirty\<close> are the
  attributes \<open>_bounds\<close> and \<open>_bounds_dirty\<close> of the base class. Every other attribute of the
  node is in the record's extension. \<open>'m\<close> is the matrix type of svgelements, \<open>'a\<close> the type
  of a coordinate.
\<close>

record ('m, 'a) PointNode =
  point :: "('a \<times> 'a) option"
  matrix :: "'m option"
  settings :: "(string \<times> string) list"
  fill :: "string option"
  stroke :: "string option"
  stroke_width :: "'a option"
  lock :: bool
  priv_bounds :: "('a \<times> 'a \<times> 'a \<times> 'a) option"
  priv_bounds_dirty :: bool

text \<open>
  \<open>self.matrix *= matrix\<close> belongs to svgelements and is the parameter \<open>imul\<close>: from the
  attribute (possibly \<open>None\<close>) and the right operand it gives the new attribute or the
  exception raised. The flag is set only when the product did not raise.
\<close>

definition preprocess ::
  "('m option \<Rightarrow> 'm \<Rightarrow> py_error + 'm option) \<Rightarrow> ('m, 'a, 'z) PointNode_scheme \<Rightarrow> 'm
     \<Rightarrow> ('m, 'a, 'z) PointNode_scheme \<times> py_error option" where
  "preprocess imul self m =
     (case imul (matrix self) m of
        Inl e \<Rightarrow> (self, Some e)
      | Inr sm \<Rightarrow> (self\<lparr>matrix := sm, priv_bounds_dirty := True\<rparr>, None))"

text \<open>
  \<open>transform_point\<close> belongs to svgelements too: from the matrix and the \<open>point\<close> attribute
  it gives the point \<open>p\<close> it returns and the \<open>point\<close> attribute after the call (the method
  is free to change its argument in place), or the exception raised. On a node whose
  \<open>matrix\<close> is \<open>None\<close> the attribute lookup raises \<open>AttributeError\<close>.
\<close>

definition bounds ::
  "('m \<Rightarrow> ('a \<times> 'a) option \<Rightarrow> py_error + ('a \<times> 'a) \<times> ('a \<times> 'a) option)
     \<Rightarrow> ('m, 'a, 'z) PointNode_scheme
     \<Rightarrow> ('m, 'a, 'z) PointNode_scheme \<times> (py_error + ('a \<times> 'a \<times> 'a \<times> 'a) option)" where
  "bounds transform_point self =
     (if priv_bounds_dirty self then
        (case matrix self of
           None \<Rightarrow> (self, Inl AttributeError)
         | Some m \<Rightarrow>
            (case transform_point m (point self) of
               Inl e \<Rightarrow> (self, Inl e)
             | Inr (p, pt) \<Rightarrow>
                (let self1 = self\<lparr>point := pt,
                                  priv_bounds := Some (fst p, snd p, fst p, snd p),
                                  priv_bounds_dirty := False\<rparr>
                 in (self1, Inr (priv_bounds self1)))))
      else (self, Inr (priv_bounds self)))"

definition update_point ::
  "('m, 'a, 'z) PointNode_scheme \<Rightarrow> 'i \<Rightarrow> 'p \<Rightarrow> ('m, 'a, 'z) PointNode_scheme \<times> bool" where
  "update_point self index pt = (self, False)"

definition add_point ::
  "('m, 'a, 'z) PointNode_scheme \<Rightarrow> 'p \<Rightarrow> 'i option \<Rightarrow> ('m, 'a, 'z) PointNode_scheme \<times> bool" where
  "add_point self pt index = (self, False)"

text \<open>
  The two corners of a rectangle \<open>(x0, y0, x1, y1)\<close> coincide; a node's cache is in order
  when it is marked dirty or holds such a rectangle.
\<close>

definition corners_coincide :: "'a \<times> 'a \<times> 'a \<times> 'a \<Rightarrow> bool" where
  "corners_coincide r = (case r of (x0, y0, x1, y1) \<Rightarrow> x0 = x1 \<and> y0 = y1)"

definition bounds_cache_ok :: "('m, 'a, 'z) PointNode_scheme \<Rightarrow> bool" where
  "bounds_cache_ok self =
     (priv_bounds_dirty self \<or>
      (case priv_bounds self of None \<Rightarrow> False | Some r \<Rightarrow> corners_coincide r))"

section \<open>Concrete kernels and nodes for the examples\<close>

text \<open>
  Three contexts to run the handlers on. The first keeps the list of the commands it was
  given and raises nothing; the second raises the given exception on every command and
  changes nothing; the third refuses the first \<open>usb_connect\<close> it sees and accepts the next
  (its state counts the attempts).
\<close>

definition recording_context :: "string list context_call" where
  "recording_context command k = (k @ [command], None)"

definition raising_context :: "py_error \<Rightarrow> unit context_call" where
  "raising_context e command k = (k, Some e)"


definition example_thread_state_text :: "thread_state \<Rightarrow> string" where
  "example_thread_state_text state = (if state = STATE_BUSY then ''Busy'' else ''Not busy'')"

text \<open>The window of \<open>__init__\<close> after a notification of \<open>STATE_BUSY\<close>.\<close>

definition busy_window :: LhystudiosControllerGui where
  "busy_window =
     on_control_state example_thread_state_text LhystudiosControllerGui_init STATE_BUSY"

text \<open>
  A matrix that only translates, given by its offset, with the product and the transform
  written out for it; and a node at \<open>(1, 2)\<close> under the translation by \<open>(3, 4)\<close>, its
  cache marked dirty as for a node that was never measured.
\<close>

definition translate_imul :: "(int \<times> int) option \<Rightarrow> int \<times> int \<Rightarrow> py_error + (int \<times> int) option" where
  "translate_imul a b =
     (case a of
        None \<Rightarrow> Inl AttributeError
      | Some a \<Rightarrow> Inr (Some (fst a + fst b, snd a + snd b)))"

definition translate_point ::
  "int \<times> int \<Rightarrow> (int \<times> int) option \<Rightarrow> py_error + (int \<times> int) \<times> (int \<times> int) option" where
  "translate_point m p =
     (case p of
        None \<Rightarrow> Inl TypeError
      | Some v \<Rightarrow> Inr ((fst v + fst m, snd v + snd m), Some v))"

definition example_node :: "(int \<times> int, int) PointNode" where
  "example_node =
     \<lparr>point = Some (1, 2), matrix = Some (3, 4), settings = [], fill = None,
      stroke = None, stroke_width = None, lock = False,
      priv_bounds = None, priv_bounds_dirty = True\<rparr>"

section \<open>The buffer maximum\<close>

lemma on_buffer_update_buffer_max:
  "buffer_max (fst (on_buffer_update self v)) =
     (if gui_update self then max (buffer_max self) v else buffer_max self)"
  by (simp add: on_buffer_update_def Let_def split: option.splits)

lemma on_buffer_update_gui_update:
  "gui_update (fst (on_buffer_update self v)) = gui_update self"
  by (simp add: on_buffer_update_def Let_def split: option.splits)

lemma on_buffer_updates_fold:
  "buffer_max (on_buffer_updates self vs) =
     (if gui_update self then fold max vs (buffer_max self) else buffer_max self)"
proof (induction vs arbitrary: self)
  case Nil
  show ?case by simp
next
  case (Cons v vs)
  show ?case
    by (simp add: Cons.IH on_buffer_update_buffer_max on_buffer_update_gui_update max.commute)
qed

lemma on_buffer_updates_snoc:
  "on_buffer_updates self (vs @ [v]) = fst (on_buffer_update (on_buffer_updates self vs) v)"
  by (induction vs arbitrary: self) simp_all


lemma on_buffer_update_monotone:
  "buffer_max self \<le> buffer_max (fst (on_buffer_update self v))"
  by (simp add: on_buffer_update_buffer_max)

text \<open>
  C1, as stated, at the window \<open>__init__\<close> builds: one notification of an empty buffer
  (depth 0) leaves \<open>buffer_max\<close> at its initial 1, which is not the largest depth seen.
\<close>

theorem buffer_max_not_max_seen:
  "buffer_max (on_buffer_updates LhystudiosControllerGui_init [0]) \<noteq> Max (set [0])"
  by (simp add: on_buffer_update_def LhystudiosControllerGui_init_def)

text \<open>
  C1, amended. While \<open>gui_update\<close> is set, \<open>buffer_max\<close> after a sequence of notifications
  is the largest of its value before the sequence (1 after \<open>__init__\<close>) and the depths
  delivered; with \<open>gui_update\<close> cleared it keeps its value. It never decreases: not in one
  notification, and so not from any prefix of a sequence to the next one.
\<close>

theorem buffer_max_running_maximum:
  "buffer_max (on_buffer_updates self vs) =
     (if gui_update self then Max (insert (buffer_max self) (set vs)) else buffer_max self)
   \<and> buffer_max (on_buffer_updates LhystudiosControllerGui_init vs) = Max (insert 1 (set vs))
   \<and> buffer_max self \<le> buffer_max (fst (on_buffer_update self v))
   \<and> buffer_max (on_buffer_updates self vs) \<le> buffer_max (on_buffer_updates self (vs @ [v]))"
proof -
  have fold_Max: "fold max vs b = Max (insert b (set vs))" for b :: int
    using Max.set_eq_fold [of b vs] by simp
  have a: "buffer_max (on_buffer_updates self vs) =
     (if gui_update self then Max (insert (buffer_max self) (set vs)) else buffer_max self)"
    for self
    by (simp add: on_buffer_updates_fold fold_Max)
  have b: "buffer_max (on_buffer_updates LhystudiosControllerGui_init vs) = Max (insert 1 (set vs))"
    using a [of LhystudiosControllerGui_init] by (simp add: LhystudiosControllerGui_init_def)
  have c: "buffer_max (on_buffer_updates self vs) \<le> buffer_max (on_buffer_updates self (vs @ [v]))"
    by (simp only: on_buffer_updates_snoc on_buffer_update_monotone)
  from a b c on_buffer_update_monotone show ?thesis by blast
qed

theorem buffer_max_running_maximum_witness:
  "buffer_max (on_buffer_updates LhystudiosControllerGui_init [3, 0, 7]) = 7
   \<and> buffer_max (on_buffer_updates LhystudiosControllerGui_init [0, 0]) = 1
   \<and> buffer_max (on_buffer_updates
        (LhystudiosControllerGui_init\<lparr>gui_update := False\<rparr>) [3, 0, 7]) = 1"
  using buffer_max_running_maximum [of LhystudiosControllerGui_init "[3, 0, 7]" 0]
        buffer_max_running_maximum [of LhystudiosControllerGui_init "[0, 0]" 0]
        buffer_max_running_maximum [of "LhystudiosControllerGui_init\<lparr>gui_update := False\<rparr>" "[3, 0, 7]" 0]
  by (simp add: LhystudiosControllerGui_init_def)

section \<open>PointNode: bounds and point editing\<close>

lemma bounds_when_dirty:
  assumes "priv_bounds_dirty self" and "matrix self = Some m"
    and "transform_point m (point self) = Inr ((x, y), pt)"
  shows "bounds transform_point self =
     (self\<lparr>point := pt, priv_bounds := Some (x, y, x, y), priv_bounds_dirty := False\<rparr>,
      Inr (Some (x, y, x, y)))"
  using assms by (simp add: bounds_def)

lemma bounds_when_clean:
  assumes "\<not> priv_bounds_dirty self"
  shows "bounds transform_point self = (self, Inr (priv_bounds self))"
  using assms by (simp add: bounds_def)

lemma preprocess_marks_dirty:
  assumes "imul (matrix self) m2 = Inr sm"
  shows "preprocess imul self m2 = (self\<lparr>matrix := sm, priv_bounds_dirty := True\<rparr>, None)"
  using assms by (simp add: preprocess_def)

lemma bounds_keeps_cache_ok:
  assumes "bounds_cache_ok self"
  shows "bounds_cache_ok (fst (bounds transform_point self))"
  using assms
  by (auto simp: bounds_def bounds_cache_ok_def corners_coincide_def
           split: option.splits sum.splits)

lemma bounds_returns_coinciding_corners:
  assumes "bounds_cache_ok self" and "snd (bounds transform_point self) = Inr r"
  shows "\<exists>r'. r = Some r' \<and> corners_coincide r'"
proof (cases "priv_bounds_dirty self")
  case True
  with assms(2) show ?thesis
    by (auto simp: bounds_def corners_coincide_def split: option.splits sum.splits)
next
  case False
  with assms(2) have "r = priv_bounds self"
    by (simp add: bounds_def)
  moreover from False assms(1) obtain r' where "priv_bounds self = Some r'" and "corners_coincide r'"
    by (auto simp: bounds_cache_ok_def split: option.splits)
  ultimately show ?thesis by simp
qed

lemma preprocess_keeps_cache_ok:
  assumes "bounds_cache_ok self"
  shows "bounds_cache_ok (fst (preprocess imul self m2))"
  using assms by (auto simp: preprocess_def bounds_cache_ok_def split: sum.splits)

text \<open>
  C9. Take a node whose \<open>matrix\<close> and \<open>point\<close> are set and on which
  \<open>matrix.transform_point(point)\<close> returns \<open>(x, y)\<close>.
  \<^item> With the cache marked dirty, \<open>bounds\<close> returns \<open>(x, y, x, y)\<close>, stores it and clears
    the mark.
  \<^item> The next read returns the stored rectangle and leaves the node as it is, whatever
    \<open>transform_point\<close> would give by then (the second read is given another function
    \<open>transform_point2\<close>): nothing is recomputed.
  \<^item> With the mark clear, \<open>bounds\<close> returns the stored value and does not touch the node.
  \<^item> \<open>preprocess\<close> multiplies the matrix and sets the mark, so the read after it computes
    the rectangle again, from the new matrix: \<open>(x2, y2, x2, y2)\<close> when
    \<open>transform_point\<close> of the new matrix and the point is \<open>(x2, y2)\<close>.
  \<^item> The minimum corner always equals the maximum corner: a cache that is dirty or holds
    a rectangle with coinciding corners stays so under \<open>bounds\<close> and \<open>preprocess\<close>, and
    on such a node every rectangle \<open>bounds\<close> returns has coinciding corners.
\<close>

theorem bounds_degenerate_and_cached:
  assumes "matrix self = Some m" and "point self = Some pt"
    and "transform_point m (Some pt) = Inr ((x, y), pt')"
  shows
    "(priv_bounds_dirty self \<longrightarrow>
        bounds transform_point self =
          (self\<lparr>point := pt', priv_bounds := Some (x, y, x, y), priv_bounds_dirty := False\<rparr>,
           Inr (Some (x, y, x, y)))
        \<and> bounds transform_point2 (fst (bounds transform_point self)) =
          (fst (bounds transform_point self), Inr (Some (x, y, x, y))))
     \<and> (\<not> priv_bounds_dirty self \<longrightarrow>
        bounds transform_point self = (self, Inr (priv_bounds self)))
     \<and> (imul (Some m) m2 = Inr (Some m') \<and> transform_point m' (Some pt) = Inr ((x2, y2), pt2) \<longrightarrow>
        priv_bounds_dirty (fst (preprocess imul self m2))
        \<and> snd (bounds transform_point (fst (preprocess imul self m2))) =
            Inr (Some (x2, y2, x2, y2)))
     \<and> (bounds_cache_ok self \<longrightarrow>
        (\<forall>r. snd (bounds transform_point self) = Inr r \<longrightarrow>
             (\<exists>r'. r = Some r' \<and> corners_coincide r'))
        \<and> bounds_cache_ok (fst (bounds transform_point self))
        \<and> bounds_cache_ok (fst (preprocess imul self m2)))"
proof (intro conjI impI allI)
  assume d: "priv_bounds_dirty self"
  from d assms show first: "bounds transform_point self =
      (self\<lparr>point := pt', priv_bounds := Some (x, y, x, y), priv_bounds_dirty := False\<rparr>,
       Inr (Some (x, y, x, y)))"
    by (simp add: bounds_when_dirty)
  show "bounds transform_point2 (fst (bounds transform_point self)) =
      (fst (bounds transform_point self), Inr (Some (x, y, x, y)))"
    by (simp add: first bounds_when_clean)
next
  assume "\<not> priv_bounds_dirty self"
  then show "bounds transform_point self = (self, Inr (priv_bounds self))"
    by (rule bounds_when_clean)
next
  assume h: "imul (Some m) m2 = Inr (Some m') \<and> transform_point m' (Some pt) = Inr ((x2, y2), pt2)"
  with assms have p: "preprocess imul self m2 =
      (self\<lparr>matrix := Some m', priv_bounds_dirty := True\<rparr>, None)"
    by (simp add: preprocess_marks_dirty)
  show "priv_bounds_dirty (fst (preprocess imul self m2))"
    by (simp add: p)
  from h assms show "snd (bounds transform_point (fst (preprocess imul self m2))) =
      Inr (Some (x2, y2, x2, y2))"
    by (simp add: p bounds_when_dirty)
next
  fix r
  assume "bounds_cache_ok self" and "snd (bounds transform_point self) = Inr r"
  then show "\<exists>r'. r = Some r' \<and> corners_coincide r'"
    by (rule bounds_returns_coinciding_corners)
next
  assume "bounds_cache_ok self"
  then show "bounds_cache_ok (fst (bounds transform_point self))"
    by (rule bounds_keeps_cache_ok)
next
  assume "bounds_cache_ok self"
  then show "bounds_cache_ok (fst (preprocess imul self m2))"
    by (rule preprocess_keeps_cache_ok)
qed

text \<open>
  The theorem at the example node (point \<open>(1, 2)\<close>, translation by \<open>(3, 4)\<close>): the first
  read gives \<open>(4, 6, 4, 6)\<close>; read again, clean, it gives the same; after a \<open>preprocess\<close>
  by \<open>(10, 20)\<close> the read gives \<open>(14, 26, 14, 26)\<close>.
\<close>

theorem bounds_degenerate_and_cached_witness:
  "bounds translate_point example_node =
     (example_node\<lparr>priv_bounds := Some (4, 6, 4, 6), priv_bounds_dirty := False\<rparr>,
      Inr (Some (4, 6, 4, 6)))
   \<and> bounds translate_point
        (example_node\<lparr>priv_bounds := Some (4, 6, 4, 6), priv_bounds_dirty := False\<rparr>) =
     (example_node\<lparr>priv_bounds := Some (4, 6, 4, 6), priv_bounds_dirty := False\<rparr>,
      Inr (Some (4, 6, 4, 6)))
   \<and> snd (bounds translate_point (fst (preprocess translate_imul example_node (10, 20)))) =
     Inr (Some (14, 26, 14, 26))
   \<and> bounds_cache_ok example_node
   \<and> bounds_cache_ok (fst (bounds translate_point example_node))"
proof -
  have m: "matrix example_node = Some (3, 4)" and p: "point example_node = Some (1, 2)"
    and d: "priv_bounds_dirty example_node" and ok: "bounds_cache_ok example_node"
    by (simp_all add: example_node_def bounds_cache_ok_def)
  have t: "translate_point (3, 4) (Some (1, 2)) = Inr ((4, 6), Some (1, 2))"
    by (simp add: translate_point_def)
  have i: "translate_imul (Some (3, 4)) (10, 20) = Inr (Some (13, 24))
           \<and> translate_point (13, 24) (Some (1, 2)) = Inr ((14, 26), Some (1, 2))"
    by (simp add: translate_imul_def translate_point_def)
  let ?clean = "example_node\<lparr>priv_bounds := Some (4, 6, 4, 6), priv_bounds_dirty := False\<rparr>"
  have mc: "matrix ?clean = Some (3, 4)" and pc: "point ?clean = Some (1, 2)"
    and c: "\<not> priv_bounds_dirty ?clean"
    by (simp_all add: example_node_def)
  note dirty_case = bounds_degenerate_and_cached
         [where self = example_node and m = "(3, 4)" and pt = "(1, 2)"
            and transform_point = translate_point and x = 4 and y = 6 and pt' = "Some (1, 2)"
            and ?transform_point2.0 = translate_point
            and imul = translate_imul and ?m2.0 = "(10, 20)" and m' = "(13, 24)"
            and ?x2.0 = 14 and ?y2.0 = 26 and ?pt2.0 = "Some (1, 2)", OF m p t]
  note clean_case = bounds_degenerate_and_cached
         [where self = ?clean and m = "(3, 4)" and pt = "(1, 2)"
            and transform_point = translate_point and x = 4 and y = 6 and pt' = "Some (1, 2)"
            and ?transform_point2.0 = translate_point
            and imul = translate_imul and ?m2.0 = "(10, 20)" and m' = "(13, 24)"
            and ?x2.0 = 14 and ?y2.0 = 26 and ?pt2.0 = "Some (1, 2)", OF mc pc t]
  have same: "example_node\<lparr>point := Some (1, 2), priv_bounds := Some (4, 6, 4, 6),
                priv_bounds_dirty := False\<rparr> = ?clean"
    by (simp add: example_node_def)
  from dirty_case d have "bounds translate_point example_node =
      (example_node\<lparr>point := Some (1, 2), priv_bounds := Some (4, 6, 4, 6),
         priv_bounds_dirty := False\<rparr>, Inr (Some (4, 6, 4, 6)))"
    by blast
  then have first: "bounds translate_point example_node = (?clean, Inr (Some (4, 6, 4, 6)))"
    by (simp only: same)
  from clean_case c have "bounds translate_point ?clean = (?clean, Inr (priv_bounds ?clean))"
    by blast
  then have second: "bounds translate_point ?clean = (?clean, Inr (Some (4, 6, 4, 6)))"
    by simp
  from dirty_case i have third:
    "snd (bounds translate_point (fst (preprocess translate_imul example_node (10, 20)))) =
       Inr (Some (14, 26, 14, 26))"
    by blast
  from dirty_case ok have fourth: "bounds_cache_ok (fst (bounds translate_point example_node))"
    by blast
  from first second third ok fourth show ?thesis
    by (intro conjI)
qed

text \<open>
  C10. \<open>update_point\<close> and \<open>add_point\<close> return \<open>False\<close> for every node, index and point, and
  the node they leave is the node they were given, in every attribute.
\<close>

theorem point_editing_refused:
  "update_point self index pt = (self, False) \<and> add_point self pt index' = (self, False)"
  by (simp add: update_point_def add_point_def)

section \<open>Repeated state notifications\<close>

lemma on_control_state_records_state:
  "last_control_state (on_control_state get_text_thread_state self state) = Some state"
  by (simp add: on_control_state_def Let_def split: option.splits)

lemma on_control_state_same_state:
  assumes "last_control_state self = Some state"
  shows "on_control_state get_text_thread_state self state = self"
  using assms by (simp add: on_control_state_def)

lemma on_connection_state_change_twice:
  "on_connection_state_change usb_status
     (fst (on_connection_state_change usb_status self state)) state =
   on_connection_state_change usb_status self state"
  by (simp add: on_connection_state_change_def Let_def split: option.splits list.splits)

text \<open>
  C4, as stated, for the subscriber of connection-state events: a window that has handled
  \<open>STATE_CONNECTION_FAILED\<close> is handed the same state again, after the USB status text
  moved on. The second delivery is not skipped: it writes the new status on the button.
\<close>

theorem connection_state_not_deduplicated:
  "fst (on_connection_state_change (Some [''Device not found.''])
          (fst (on_connection_state_change (Some [''Connection failed.''])
                  LhystudiosControllerGui_init ''STATE_CONNECTION_FAILED''))
          ''STATE_CONNECTION_FAILED'')
   \<noteq> fst (on_connection_state_change (Some [''Connection failed.''])
            LhystudiosControllerGui_init ''STATE_CONNECTION_FAILED'')"
  by (simp add: on_connection_state_change_def LhystudiosControllerGui_init_def)

text \<open>
  C4, amended. \<open>on_control_state\<close> skips a notification that carries the state it saw
  last: the window is left exactly as it was, whatever the kernel would report, and so
  delivering any state twice in a row equals delivering it once. \<open>on_connection_state_change\<close>
  keeps no last state and applies every notification; the second of two equal notifications
  changes nothing when the last USB status signal is the same at both.
\<close>

theorem repeated_notification_idempotent:
  "(last_control_state self = Some state \<longrightarrow>
      on_control_state get_text_thread_state self state = self)
   \<and> on_control_state get_text_thread_state2
        (on_control_state get_text_thread_state self state) state =
      on_control_state get_text_thread_state self state
   \<and> on_connection_state_change usb_status
        (fst (on_connection_state_change usb_status self cstate)) cstate =
      on_connection_state_change usb_status self cstate"
  by (simp add: on_control_state_same_state on_control_state_records_state
        on_connection_state_change_twice)

theorem repeated_notification_idempotent_witness:
  "last_control_state busy_window = Some STATE_BUSY
   \<and> on_control_state example_thread_state_text busy_window STATE_BUSY = busy_window
   \<and> on_connection_state_change (Some [''Connection failed.''])
        (fst (on_connection_state_change (Some [''Connection failed.''])
                LhystudiosControllerGui_init ''STATE_CONNECTION_FAILED''))
        ''STATE_CONNECTION_FAILED'' =
      on_connection_state_change (Some [''Connection failed.''])
        LhystudiosControllerGui_init ''STATE_CONNECTION_FAILED''"
proof -
  have l: "last_control_state busy_window = Some STATE_BUSY"
    by (simp add: busy_window_def on_control_state_records_state)
  from l repeated_notification_idempotent
         [of busy_window STATE_BUSY example_thread_state_text example_thread_state_text
             "Some [''Connection failed.'']" "''STATE_CONNECTION_FAILED''"]
       repeated_notification_idempotent
         [of LhystudiosControllerGui_init STATE_BUSY example_thread_state_text
             example_thread_state_text
             "Some [''Connection failed.'']" "''STATE_CONNECTION_FAILED''"]
  show ?thesis by blast
qed

section \<open>The connection button\<close>

lemma on_button_start_usb_kernel:
  assumes "signal_state state0 = Inr state"
  shows "snd (fst (on_button_start_usb ctx state0 (self, k))) =
     (if state \<in> set connect_states then fst (ctx ''usb_connect\<newline>'' k)
      else if state \<in> set disconnect_states then fst (ctx ''usb_disconnect\<newline>'' k)
      else k)"
  using assms
  by (simp add: on_button_start_usb_def split: prod.splits option.splits py_error.splits)

lemma connect_disconnect_states_disjoint:
  "state \<in> set connect_states \<Longrightarrow> state \<notin> set disconnect_states"
  by (auto simp: connect_states_def disconnect_states_def)

text \<open>
  C7, as stated, at the state \<open>STATE_DRIVER_MOCK\<close>, which is none of Uninitialized,
  Disconnected and ConnectionFailed: the button hands \<open>usb_connect\<close> to the context.
\<close>

theorem connect_issued_in_mock_state:
  "snd (fst (on_button_start_usb recording_context (STuple [SStr ''STATE_DRIVER_MOCK''])
               (LhystudiosControllerGui_init, []))) = [''usb_connect\<newline>'']
   \<and> SStr ''STATE_DRIVER_MOCK'' \<notin>
       {SStr ''STATE_UNINITIALIZED'', SStr ''STATE_USB_DISCONNECTED'',
        SStr ''STATE_CONNECTION_FAILED''}"
  by (simp add: on_button_start_usb_def signal_state_def connect_states_def
        recording_context_def)

text \<open>
  C7, amended. Let \<open>state\<close> be the last \<open>pipe;state\<close> signal (the first element, when
  it is a tuple). The button hands \<open>usb_connect\<close> to the context exactly when \<open>state\<close>
  is \<open>STATE_USB_DISCONNECTED\<close>, \<open>STATE_UNINITIALIZED\<close>, \<open>STATE_CONNECTION_FAILED\<close>,
  \<open>STATE_DRIVER_MOCK\<close> or \<open>None\<close> (no signal yet); it hands \<open>usb_disconnect\<close> exactly when
  \<open>state\<close> is \<open>STATE_CONNECTED\<close> or \<open>STATE_USB_CONNECTED\<close>; in every other state it hands
  over nothing. With any context, the kernel is left as that one command leaves it.
\<close>

theorem usb_button_command:
  assumes "signal_state state0 = Inr state"
  shows
    "(snd (fst (on_button_start_usb recording_context state0 (self, []))) = [''usb_connect\<newline>''])
       = (state \<in> {SStr ''STATE_USB_DISCONNECTED'', SStr ''STATE_UNINITIALIZED'',
                    SStr ''STATE_CONNECTION_FAILED'', SStr ''STATE_DRIVER_MOCK'', SNone})
     \<and> (snd (fst (on_button_start_usb recording_context state0 (self, []))) = [''usb_disconnect\<newline>''])
       = (state \<in> {SStr ''STATE_CONNECTED'', SStr ''STATE_USB_CONNECTED''})
     \<and> (snd (fst (on_button_start_usb recording_context state0 (self, []))) = [])
       = (state \<notin> {SStr ''STATE_USB_DISCONNECTED'', SStr ''STATE_UNINITIALIZED'',
                    SStr ''STATE_CONNECTION_FAILED'', SStr ''STATE_DRIVER_MOCK'', SNone,
                    SStr ''STATE_CONNECTED'', SStr ''STATE_USB_CONNECTED''})
     \<and> snd (fst (on_button_start_usb ctx state0 (self, k))) =
         (if state \<in> set connect_states then fst (ctx ''usb_connect\<newline>'' k)
          else if state \<in> set disconnect_states then fst (ctx ''usb_disconnect\<newline>'' k)
          else k)"
proof -
  have c: "set connect_states =
      {SStr ''STATE_USB_DISCONNECTED'', SStr ''STATE_UNINITIALIZED'',
       SStr ''STATE_CONNECTION_FAILED'', SStr ''STATE_DRIVER_MOCK'', SNone}"
    by (simp add: connect_states_def)
  have d: "set disconnect_states = {SStr ''STATE_CONNECTED'', SStr ''STATE_USB_CONNECTED''}"
    by (simp add: disconnect_states_def)
  have r: "snd (fst (on_button_start_usb recording_context state0 (self, []))) =
      (if state \<in> set connect_states then [''usb_connect\<newline>'']
       else if state \<in> set disconnect_states then [''usb_disconnect\<newline>'']
       else [])"
    by (simp add: on_button_start_usb_kernel [OF assms] recording_context_def)
  have 1: "(snd (fst (on_button_start_usb recording_context state0 (self, []))) = [''usb_connect\<newline>''])
       = (state \<in> set connect_states)"
    by (simp add: r)
  have 2: "(snd (fst (on_button_start_usb recording_context state0 (self, []))) = [''usb_disconnect\<newline>''])
       = (state \<in> set disconnect_states)"
    using connect_disconnect_states_disjoint [of state] by (auto simp: r)
  have 3: "(snd (fst (on_button_start_usb recording_context state0 (self, []))) = [])
       = (state \<notin> set connect_states \<union> set disconnect_states)"
    by (simp add: r)
  from 1 2 3 on_button_start_usb_kernel [OF assms, of ctx self k] show ?thesis
    unfolding c d by (simp only: Un_insert_left Un_empty_left)
qed

theorem usb_button_command_witness:
  "snd (fst (on_button_start_usb recording_context (STuple [SStr ''STATE_UNINITIALIZED''])
               (LhystudiosControllerGui_init, []))) = [''usb_connect\<newline>'']
   \<and> snd (fst (on_button_start_usb recording_context (STuple [SStr ''STATE_USB_CONNECTED''])
               (LhystudiosControllerGui_init, []))) = [''usb_disconnect\<newline>'']
   \<and> snd (fst (on_button_start_usb recording_context (STuple [SStr ''STATE_CONNECTING''])
               (LhystudiosControllerGui_init, []))) = []"
proof -
  have s: "signal_state (STuple [SStr x]) = Inr (SStr x)" for x
    by (simp add: signal_state_def)
  from usb_button_command [OF s, of "''STATE_UNINITIALIZED''" LhystudiosControllerGui_init
           recording_context "[]"]
       usb_button_command [OF s, of "''STATE_USB_CONNECTED''" LhystudiosControllerGui_init
           recording_context "[]"]
       usb_button_command [OF s, of "''STATE_CONNECTING''" LhystudiosControllerGui_init
           recording_context "[]"]
  show ?thesis by simp
qed

section \<open>Exceptions from the context\<close>









text \<open>
  C6, as stated, for the same two commands sent from the Stop and Pause panels: with no
  controller to act on, so that the command raises \<open>AttributeError\<close>, the panel's click
  handler lets the exception through to its caller.
\<close>

theorem panel_commands_not_swallowed:
  "on_button_go_click (register_panel_stop (raising_context AttributeError)) () =
     ((), Some AttributeError)
   \<and> on_button_go_click (register_panel_pause (raising_context AttributeError)) () =
     ((), Some AttributeError)"
  by (simp add: on_button_go_click_def register_panel_stop_def register_panel_pause_def
        raising_context_def)

text \<open>
  C6, amended. For the Pause and Stop entries of the controller window's menu: when
  \<open>pause\<close> (or \<open>estop\<close>) raises \<open>AttributeError\<close> in the context, the handler returns
  without an exception; the window is unchanged in every case, and the kernel is as the
  command left it, so unchanged when the command raised before doing anything.
\<close>

theorem menu_commands_swallow_AttributeError:
  "(ctx ''pause\<newline>'' k = (k', Some AttributeError) \<longrightarrow>
      on_menu_pause ctx (self, k) = ((self, k'), None))
   \<and> (ctx ''estop\<newline>'' k = (k', Some AttributeError) \<longrightarrow>
      on_menu_stop ctx (self, k) = ((self, k'), None))
   \<and> fst (fst (on_menu_pause ctx (self, k))) = self
   \<and> fst (fst (on_menu_stop ctx (self, k))) = self"
  by (simp add: on_menu_pause_def on_menu_stop_def
        split: prod.splits option.splits py_error.splits)

theorem menu_commands_swallow_AttributeError_witness:
  "on_menu_pause (raising_context AttributeError) (LhystudiosControllerGui_init, ()) =
     ((LhystudiosControllerGui_init, ()), None)
   \<and> on_menu_stop (raising_context AttributeError) (LhystudiosControllerGui_init, ()) =
     ((LhystudiosControllerGui_init, ()), None)"
proof -
  have r: "raising_context AttributeError c () = ((), Some AttributeError)" for c
    by (simp add: raising_context_def)
  from menu_commands_swallow_AttributeError
         [of "raising_context AttributeError" "()" "()" LhystudiosControllerGui_init] r
  show ?thesis by simp
qed

end
